theory Spec2Isabelle
  imports Complex_Main
begin

section \<open>The NanoPi NEO OLED system monitor\<close>

text \<open>
  The repository holds the monitor class \<open>NanoPiOLEDMonitor\<close> twice: in
  \<open>NanoPiNEOOLEDSystemMonitor.py\<close> and, as a here-document, in \<open>installer.py\<close>.
  The two copies differ in their constants (display modes, default configuration,
  timezone list) and in some drawing code. Every definition below that depends on the
  copy takes a \<open>variant\<close>.

  Python floats are modelled by the real numbers they denote: comparisons are exact,
  the rounding of float arithmetic is not modelled. Python ints are \<open>int\<close>.
\<close>

datatype variant = Monitor | Installer

datatype py_error = KeyError | TypeError | ValueError | UnknownTimeZoneError

subsection \<open>JSON values and the configuration dictionary\<close>

text \<open>
  What \<open>json.load\<close> returns: \<open>None\<close>, a bool, an int, a float (finite, or one of
  the constants \<open>NaN\<close>, \<open>Infinity\<close>, \<open>-Infinity\<close> that the parser accepts; \<open>JInfinity
  True\<close> is the positive one), a string, a list, or a dict. \<open>JObject\<close> holds the
  members of an object in the order of the text, where a name may come twice.
\<close>

datatype json =
    JNull
  | JBool bool
  | JInt int
  | JFloat real
  | JNaN
  | JInfinity bool
  | JString string
  | JArray "json list"
  | JObject "(string \<times> json) list"

text \<open>
  A dict key, up to the equality that a dict uses: numbers are equal by value
  (\<open>True == 1 == 1.0\<close>), the parser has one \<open>NaN\<close> object, and nothing else is equal
  across the constructors.
\<close>

datatype key = KNull | KNum real | KNaN | KInf bool | KStr string

type_synonym config = "key \<rightharpoonup> json"

text \<open>\<open>hash(x)\<close>: lists and dicts are unhashable and raise \<open>TypeError\<close>.\<close>

fun hash_key :: "json \<Rightarrow> key option" where
  "hash_key JNull = Some KNull"
| "hash_key (JBool b) = Some (KNum (if b then 1 else 0))"
| "hash_key (JInt i) = Some (KNum (of_int i))"
| "hash_key (JFloat r) = Some (KNum r)"
| "hash_key JNaN = Some KNaN"
| "hash_key (JInfinity b) = Some (KInf b)"
| "hash_key (JString s) = Some (KStr s)"
| "hash_key (JArray xs) = None"
| "hash_key (JObject kvs) = None"

text \<open>
  The file at \<open>self.config_file\<close>: absent; present but failing in \<open>open\<close> or in
  \<open>json.load\<close>; or parsed, to any JSON value.
\<close>

datatype config_file = Missing | Unreadable | Parsed json

text \<open>Truth value of a JSON value in an \<open>if\<close>.\<close>

fun truthy :: "json \<Rightarrow> bool" where
  "truthy JNull = False"
| "truthy (JBool b) = b"
| "truthy (JInt i) = (i \<noteq> 0)"
| "truthy (JFloat r) = (r \<noteq> 0)"
| "truthy JNaN = True"
| "truthy (JInfinity b) = True"
| "truthy (JString s) = (s \<noteq> [])"
| "truthy (JArray xs) = (xs \<noteq> [])"
| "truthy (JObject kvs) = (kvs \<noteq> [])"

text \<open>The keys of the dict built from the members of an object, in insertion order.\<close>

definition dict_keys :: "(string \<times> json) list \<Rightarrow> string list" where
  "dict_keys kvs = rev (remdups (rev (map fst kvs)))"

text \<open>
  \<open>for x in v\<close>: a list yields its elements, a string its characters, a dict its
  keys; anything else raises \<open>TypeError\<close>.
\<close>

fun py_iter :: "json \<Rightarrow> py_error + json list" where
  "py_iter (JArray xs) = Inr xs"
| "py_iter (JString s) = Inr (map (\<lambda>c. JString [c]) s)"
| "py_iter (JObject kvs) = Inr (map JString (dict_keys kvs))"
| "py_iter _ = Inl TypeError"

text \<open>
  \<open>d.update(other)\<close> for a dict \<open>other\<close>: every member is assigned, in order, so the
  last member of a name wins.
\<close>

fun update_members :: "config \<Rightarrow> (string \<times> json) list \<Rightarrow> config" where
  "update_members d [] = d"
| "update_members d (kv # rest) = update_members (d(KStr (fst kv) \<mapsto> snd kv)) rest"

text \<open>
  \<open>d.update(other)\<close> for an iterable \<open>other\<close> that is not a dict: each element is
  turned into a sequence, which must have two items, key and value, and the key must
  be hashable. The first element that fails raises (\<open>TypeError\<close> or \<open>ValueError\<close>);
  what the elements before it assigned stays in \<open>d\<close>.
\<close>

fun update_pairs :: "config \<Rightarrow> json list \<Rightarrow> config \<times> py_error option" where
  "update_pairs d [] = (d, None)"
| "update_pairs d (item # rest) =
     (case py_iter item of
        Inl e \<Rightarrow> (d, Some TypeError)
      | Inr [k, x] \<Rightarrow>
          (case hash_key k of
             None \<Rightarrow> (d, Some TypeError)
           | Some hk \<Rightarrow> update_pairs (d(hk \<mapsto> x)) rest)
      | Inr _ \<Rightarrow> (d, Some ValueError))"

text \<open>\<open>d.update(other)\<close>: the dict afterwards, and the exception if one is raised.\<close>

definition dict_update :: "config \<Rightarrow> json \<Rightarrow> config \<times> py_error option" where
  "dict_update d other =
     (case other of
        JObject kvs \<Rightarrow> (update_members d kvs, None)
      | _ \<Rightarrow>
          (case py_iter other of
             Inl e \<Rightarrow> (d, Some e)
           | Inr items \<Rightarrow> update_pairs d items))"

text \<open>The dict that \<open>json.load\<close> builds from the members of an object.\<close>

definition py_dict :: "(string \<times> json) list \<Rightarrow> config" where
  "py_dict kvs = update_members Map.empty kvs"

definition default_config :: "variant \<Rightarrow> config" where
  "default_config v =
     (case v of
        Monitor \<Rightarrow>
          [KStr ''timezone'' \<mapsto> JString ''UTC'',
           KStr ''display_brightness'' \<mapsto> JInt 255,
           KStr ''auto_brightness'' \<mapsto> JBool True,
           KStr ''ntp_servers'' \<mapsto>
             JArray [JString ''pool.ntp.org'', JString ''time.google.com''],
           KStr ''display_timeout'' \<mapsto> JInt 0,
           KStr ''refresh_rate'' \<mapsto> JFloat 1]
      | Installer \<Rightarrow>
          [KStr ''timezone'' \<mapsto> JString ''UTC'',
           KStr ''display_brightness'' \<mapsto> JInt 255,
           KStr ''ntp_servers'' \<mapsto>
             JArray [JString ''pool.ntp.org'', JString ''time.google.com''],
           KStr ''refresh_rate'' \<mapsto> JFloat 1,
           KStr ''temperature_unit'' \<mapsto> JString ''C'',
           KStr ''show_seconds'' \<mapsto> JBool True])"

text \<open>
  \<open>load_config\<close>. The parsed value is handed to \<open>default_config.update\<close> inside the
  \<open>try\<close>; whatever \<open>update\<close> raises is swallowed, and \<open>default_config\<close> is returned
  as \<open>update\<close> left it.
\<close>

definition load_config :: "variant \<Rightarrow> config_file \<Rightarrow> config" where
  "load_config v f =
     (case f of
        Missing \<Rightarrow> default_config v
      | Unreadable \<Rightarrow> default_config v
      | Parsed x \<Rightarrow> fst (dict_update (default_config v) x))"

subsection \<open>The monitor object and its environment\<close>

text \<open>
  The fields of \<open>self\<close> that the modelled methods read or write. \<open>device\<close> tells
  whether \<open>setup_display\<close> found a display; \<open>timezone\<close> is the pytz object, kept by
  its zone name; \<open>config_file\<close> is the content of the file on disk.
\<close>

record monitor =
  config :: config
  current_mode :: int
  device :: bool
  timezone :: string
  last_ntp_sync :: real
  config_file :: config_file

text \<open>The samples that the operating system hands to the metric readers.\<close>

record sys_sample =
  cpu_percent :: real
  vm_percent :: real
  vm_used :: int
  vm_total :: int
  du_percent :: real
  du_used :: int
  du_total :: int

record net_sample =
  hostname_stdout :: string
  io_sent :: int
  io_recv :: int

text \<open>
  What the code calls outside the repository, over a world \<open>'w\<close>:
  \<^item> \<open>ntpdate s w\<close>: \<open>subprocess.check_call(['sudo', 'ntpdate', '-s', s], timeout=10)\<close>;
    the flag is \<open>True\<close> when the call returns and \<open>False\<close> when it raises;
  \<^item> \<open>clock w\<close>: \<open>time.time()\<close>;
  \<^item> \<open>pytz_timezone x\<close>: \<open>pytz.timezone(x)\<close>, \<open>None\<close> when it raises, else the name of
    the zone object;
  \<^item> \<open>write_file c f\<close>: the file after \<open>open(..., 'w')\<close> and \<open>json.dump(c, ...)\<close>,
    whether they succeed or raise;
  \<^item> \<open>format_1f x\<close>: the text of \<open>f"{x:.1f}"\<close>;
  \<^item> \<open>strftime z f w\<close>: \<open>datetime.now(z).strftime(f)\<close>;
  \<^item> \<open>psutil_system w\<close>: the readings of \<open>psutil.cpu_percent\<close>, \<open>virtual_memory\<close> and
    \<open>disk_usage('/')\<close>, \<open>None\<close> when one of them raises;
  \<^item> \<open>network w\<close>: the output of \<open>hostname -I\<close> and \<open>psutil.net_io_counters()\<close>,
    \<open>None\<close> when one of them raises;
  \<^item> \<open>thermal_file p w\<close>: \<open>int(f.read().strip())\<close> for the file at \<open>p\<close>, \<open>None\<close> when
    opening, reading or parsing raises;
  \<^item> \<open>sensors_temperatures w\<close>: \<open>psutil.sensors_temperatures()\<close> as the list of its
    items, each entry by its \<open>current\<close> reading, \<open>None\<close> when it raises;
  \<^item> \<open>proc_uptime w\<close>: \<open>float(f.readline().split()[0])\<close> for \<open>/proc/uptime\<close>, \<open>None\<close>
    when opening, reading or parsing raises.
\<close>

record 'w os =
  ntpdate :: "string \<Rightarrow> 'w \<Rightarrow> bool \<times> 'w"
  clock :: "'w \<Rightarrow> real"
  pytz_timezone :: "json \<Rightarrow> string option"
  write_file :: "config \<Rightarrow> config_file \<Rightarrow> config_file"
  format_1f :: "real \<Rightarrow> string"
  strftime :: "string \<Rightarrow> string \<Rightarrow> 'w \<Rightarrow> string"
  psutil_system :: "'w \<Rightarrow> sys_sample option"
  network :: "'w \<Rightarrow> net_sample option"
  thermal_file :: "string \<Rightarrow> 'w \<Rightarrow> int option"
  sensors_temperatures :: "'w \<Rightarrow> (string \<times> real list) list option"
  proc_uptime :: "'w \<Rightarrow> real option"

definition display_modes :: "variant \<Rightarrow> string list" where
  "display_modes v =
     (case v of
        Monitor \<Rightarrow> [''datetime'', ''system_info'', ''network_info'', ''temperature'']
      | Installer \<Rightarrow>
          [''datetime'', ''system_info'', ''network_info'', ''temperature'', ''uptime''])"

definition button_pins :: "int list" where
  "button_pins = [16, 20, 21]"

text \<open>
  \<open>__init__\<close>. \<open>pytz.timezone\<close> is called outside any \<open>try\<close>, so an unknown zone in
  the configuration makes the constructor raise.
\<close>

definition init :: "variant \<Rightarrow> 'w os \<Rightarrow> config_file \<Rightarrow> bool \<Rightarrow> py_error + monitor" where
  "init v os file dev =
     (let cfg = load_config v file in
      case pytz_timezone os (case cfg (KStr ''timezone'') of None \<Rightarrow> JString ''UTC'' | Some z \<Rightarrow> z) of
        None \<Rightarrow> Inl UnknownTimeZoneError
      | Some tz \<Rightarrow>
          Inr \<lparr>config = cfg, current_mode = 0, device = dev, timezone = tz,
               last_ntp_sync = 0, config_file = file\<rparr>)"

definition save_config :: "'w os \<Rightarrow> monitor \<Rightarrow> monitor" where
  "save_config os st = st\<lparr>config_file := write_file os (config st) (config_file st)\<rparr>"

subsection \<open>Cycling the timezone\<close>

definition timezones :: "variant \<Rightarrow> string list" where
  "timezones v =
     (case v of
        Monitor \<Rightarrow>
          [''UTC'', ''EST'', ''PST'', ''GMT'', ''CET'', ''JST'',
           ''Asia/Shanghai'', ''Europe/London'', ''America/New_York'',
           ''America/Los_Angeles'', ''Asia/Tokyo'']
      | Installer \<Rightarrow>
          [''UTC'', ''US/Eastern'', ''US/Pacific'', ''Europe/London'', ''Europe/Berlin'',
           ''Asia/Shanghai'', ''Asia/Tokyo'', ''Australia/Sydney'', ''America/New_York'',
           ''America/Los_Angeles'', ''Asia/Kolkata''])"

text \<open>\<open>xs.index(x)\<close> for an \<open>x\<close> that is in \<open>xs\<close>: the first position.\<close>

fun index_of :: "'a list \<Rightarrow> 'a \<Rightarrow> nat" where
  "index_of [] x = 0"
| "index_of (y # ys) x = (if y = x then 0 else Suc (index_of ys x))"

text \<open>
  \<open>timezones.index(current_tz) if current_tz in timezones else 0\<close>. Only a string
  can equal an element of the list.
\<close>

definition current_index :: "variant \<Rightarrow> json \<Rightarrow> nat" where
  "current_index v current_tz =
     (case current_tz of
        JString s \<Rightarrow> (if s \<in> set (timezones v) then index_of (timezones v) s else 0)
      | _ \<Rightarrow> 0)"

text \<open>
  \<open>cycle_timezone\<close>. A missing key raises before anything is written. The
  configuration entry is assigned before \<open>pytz.timezone\<close> is called, so when that
  raises the entry stays changed while the zone object and the file do not.
\<close>

definition cycle_timezone :: "variant \<Rightarrow> 'w os \<Rightarrow> monitor \<Rightarrow> monitor" where
  "cycle_timezone v os st =
     (case config st (KStr ''timezone'') of
        None \<Rightarrow> st
      | Some current_tz \<Rightarrow>
          (let next_index = (current_index v current_tz + 1) mod length (timezones v);
               name = timezones v ! next_index;
               st1 = st\<lparr>config := (config st)(KStr ''timezone'' \<mapsto> JString name)\<rparr>
           in case pytz_timezone os (JString name) of
                None \<Rightarrow> st1
              | Some tz \<Rightarrow> save_config os (st1\<lparr>timezone := tz\<rparr>)))"

subsection \<open>Time synchronisation\<close>

text \<open>
  One pass of the body of the \<open>for\<close> loop: a server that is not a string makes
  \<open>check_call\<close> raise \<open>TypeError\<close> before any process starts; the bare \<open>except\<close>
  treats it like any failed attempt.
\<close>

definition check_call :: "'w os \<Rightarrow> json \<Rightarrow> 'w \<Rightarrow> bool \<times> 'w" where
  "check_call os server w =
     (case server of JString s \<Rightarrow> ntpdate os s w | _ \<Rightarrow> (False, w))"

text \<open>
  The loop of \<open>sync_ntp\<close>. It returns the value returned, the new \<open>last_ntp_sync\<close>,
  the world, and the attempts made, each with its outcome, in the order made.
\<close>

fun sync_loop ::
  "'w os \<Rightarrow> json list \<Rightarrow> real \<Rightarrow> 'w \<Rightarrow> bool \<times> real \<times> 'w \<times> (json \<times> bool) list" where
  "sync_loop os [] synced w = (False, synced, w, [])"
| "sync_loop os (server # rest) synced w =
     (case check_call os server w of
        (True, w') \<Rightarrow> (True, clock os w', w', [(server, True)])
      | (False, w') \<Rightarrow>
          (case sync_loop os rest synced w' of
             (r, l, w'', tr) \<Rightarrow> (r, l, w'', (server, False) # tr)))"

definition sync_ntp ::
  "'w os \<Rightarrow> monitor \<Rightarrow> 'w \<Rightarrow> bool \<times> monitor \<times> 'w \<times> (json \<times> bool) list" where
  "sync_ntp os st w =
     (case config st (KStr ''ntp_servers'') of
        None \<Rightarrow> (False, st, w, [])
      | Some v \<Rightarrow>
          (case py_iter v of
             Inl e \<Rightarrow> (False, st, w, [])
           | Inr servers \<Rightarrow>
               (case sync_loop os servers (last_ntp_sync st) w of
                  (r, l, w', tr) \<Rightarrow> (r, st\<lparr>last_ntp_sync := l\<rparr>, w', tr))))"

text \<open>
  What it means for a list of attempts to be the calls really made from world \<open>w\<close>
  to world \<open>w'\<close>: each outcome is the one \<open>check_call\<close> gives in the world the
  previous attempt left behind.
\<close>

fun attempts_from :: "'w os \<Rightarrow> 'w \<Rightarrow> (json \<times> bool) list \<Rightarrow> 'w \<Rightarrow> bool" where
  "attempts_from os w [] w' = (w' = w)"
| "attempts_from os w (a # tr) w' =
     (fst (check_call os (fst a) w) = snd a
      \<and> attempts_from os (snd (check_call os (fst a) w)) tr w')"

definition ntp_sync_interval :: real where
  "ntp_sync_interval = 3600"

text \<open>
  \<open>auto_ntp_sync\<close>. The installer copy runs \<open>sync_ntp\<close> in a thread of its own; the
  model runs it in place.
\<close>

definition auto_ntp_sync :: "'w os \<Rightarrow> monitor \<times> 'w \<Rightarrow> monitor \<times> 'w" where
  "auto_ntp_sync os sw =
     (case sw of (st, w) \<Rightarrow>
        if clock os w - last_ntp_sync st > ntp_sync_interval
        then (case sync_ntp os st w of (r, st', w', tr) \<Rightarrow> (st', w'))
        else (st, w))"

subsection \<open>Buttons\<close>

text \<open>
  \<open>button_callback\<close>: F1 advances the display mode, F2 cycles the timezone, F3
  forces a synchronisation (in a thread of its own in the installer copy; run in
  place here). Any other channel does nothing.
\<close>

definition button_callback :: "variant \<Rightarrow> 'w os \<Rightarrow> int \<Rightarrow> monitor \<times> 'w \<Rightarrow> monitor \<times> 'w" where
  "button_callback v os channel sw =
     (case sw of (st, w) \<Rightarrow>
        if channel = button_pins ! 0
        then (st\<lparr>current_mode := (current_mode st + 1) mod int (length (display_modes v))\<rparr>, w)
        else if channel = button_pins ! 1 then (cycle_timezone v os st, w)
        else if channel = button_pins ! 2
        then (case sync_ntp os st w of (r, st', w', tr) \<Rightarrow> (st', w'))
        else (st, w))"

text \<open>
  The states the object goes through: built by \<open>__init__\<close>, then changed by button
  presses and by the periodic \<open>auto_ntp_sync\<close>, while the world moves on its own.
\<close>

inductive reachable :: "variant \<Rightarrow> 'w os \<Rightarrow> monitor \<times> 'w \<Rightarrow> bool" for v :: variant and os :: "'w os" where
  reach_init: "init v os file dev = Inr st \<Longrightarrow> reachable v os (st, w)"
| reach_button: "reachable v os sw \<Longrightarrow> reachable v os (button_callback v os channel sw)"
| reach_tick: "reachable v os sw \<Longrightarrow> reachable v os (auto_ntp_sync os sw)"
| reach_world: "reachable v os (st, w) \<Longrightarrow> reachable v os (st, w')"

subsection \<open>Metrics\<close>








definition temp_files :: "string list" where
  "temp_files =
     [''/sys/class/thermal/thermal_zone0/temp'', ''/sys/class/hwmon/hwmon0/temp1_input'']"

text \<open>The loop over \<open>temp_files\<close>: the first file that reads gives millidegrees.\<close>

fun first_reading :: "'w os \<Rightarrow> 'w \<Rightarrow> string list \<Rightarrow> real option" where
  "first_reading os w [] = None"
| "first_reading os w (temp_file # rest) =
     (case thermal_file os temp_file w of
        Some m \<Rightarrow> Some (real_of_int m / 1000)
      | None \<Rightarrow> first_reading os w rest)"

text \<open>The loop over \<open>temps.items()\<close>: the first sensor that has an entry.\<close>

fun first_entry :: "(string \<times> real list) list \<Rightarrow> real option" where
  "first_entry [] = None"
| "first_entry (item # rest) =
     (case snd item of [] \<Rightarrow> first_entry rest | e # es \<Rightarrow> Some e)"

text \<open>
  \<open>get_temperature\<close>. When \<open>psutil.sensors_temperatures\<close> raises, the monitor copy
  returns \<open>None\<close> from its outer handler and the installer copy from its inner one.
\<close>

definition get_temperature :: "'w os \<Rightarrow> 'w \<Rightarrow> real option" where
  "get_temperature os w =
     (case first_reading os w temp_files of
        Some t \<Rightarrow> Some t
      | None \<Rightarrow>
          (case sensors_temperatures os w of
             None \<Rightarrow> None
           | Some temps \<Rightarrow> first_entry temps))"

text \<open>Float \<open>//\<close> and \<open>%\<close>, and \<open>int()\<close> of a float, which truncates towards zero.\<close>

definition py_floordiv :: "real \<Rightarrow> real \<Rightarrow> real" where
  "py_floordiv x y = of_int \<lfloor>x / y\<rfloor>"

definition py_mod :: "real \<Rightarrow> real \<Rightarrow> real" where
  "py_mod x y = x - y * of_int \<lfloor>x / y\<rfloor>"

definition py_int :: "real \<Rightarrow> int" where
  "py_int x = (if 0 \<le> x then \<lfloor>x\<rfloor> else \<lceil>x\<rceil>)"

record uptime =
  days :: int
  hours :: int
  minutes :: int

text \<open>\<open>get_uptime\<close>, in \<open>installer.py\<close> only.\<close>

definition get_uptime :: "'w os \<Rightarrow> 'w \<Rightarrow> uptime option" where
  "get_uptime os w =
     (case proc_uptime os w of
        None \<Rightarrow> None
      | Some uptime_seconds \<Rightarrow>
          Some \<lparr>days = py_int (py_floordiv uptime_seconds 86400),
                hours = py_int (py_floordiv (py_mod uptime_seconds 86400) 3600),
                minutes = py_int (py_floordiv (py_mod uptime_seconds 3600) 60)\<rparr>)"

subsection \<open>Drawing\<close>

text \<open>
  A canvas is the list of \<open>draw.text\<close> calls made on it, in order: position and
  text. Strings are lists of code points below 256.
\<close>

type_synonym canvas = "((int \<times> int) \<times> string) list"

definition degree :: string where
  "degree = [char_of (176 :: nat)]"

text \<open>\<open>str\<close> of an int.\<close>

fun str_nat :: "nat \<Rightarrow> string" where
  "str_nat n =
     (if n < 10 then [''0123456789'' ! n]
      else str_nat (n div 10) @ [''0123456789'' ! (n mod 10)])"

definition str_int :: "int \<Rightarrow> string" where
  "str_int i = (if i < 0 then CHR ''-'' # str_nat (nat (- i)) else str_nat (nat i))"

text \<open>\<open>s.split('/')[-1]\<close>: what follows the last slash.\<close>

definition last_component :: "string \<Rightarrow> string" where
  "last_component s = rev (takeWhile (\<lambda>c. c \<noteq> CHR ''/'') (rev s))"

text \<open>
  \<open>draw_datetime\<close>. The installer copy reads \<open>config['show_seconds']\<close> before it
  draws anything; a missing key raises \<open>KeyError\<close>, which the handler turns into
  \<open>Time Error\<close>. The monitor copy draws no synchronisation line.
\<close>

definition draw_datetime :: "variant \<Rightarrow> 'w os \<Rightarrow> monitor \<Rightarrow> 'w \<Rightarrow> canvas" where
  "draw_datetime v os st w =
     (let date_str = strftime os (timezone st) ''%a, %b %d %Y'' w;
          tz_str = last_component (timezone st)
      in case v of
           Monitor \<Rightarrow>
             [((0, 0), date_str),
              ((0, 20), strftime os (timezone st) ''%H:%M:%S'' w),
              ((0, 40), ''TZ: '' @ tz_str)]
         | Installer \<Rightarrow>
             (case config st (KStr ''show_seconds'') of
                None \<Rightarrow> [((0, 0), ''Time Error'')]
              | Some show_seconds \<Rightarrow>
                  (let time_str =
                         strftime os (timezone st)
                           (if truthy show_seconds then ''%H:%M:%S'' else ''%H:%M'') w;
                       time_since_sync = clock os w - last_ntp_sync st;
                       ntp_status = (if time_since_sync < 7200 then ''Synced'' else ''Old'')
                   in [((0, 0), date_str),
                       ((0, 16), time_str),
                       ((0, 32), ''TZ: '' @ tz_str),
                       ((0, 48), ''NTP: '' @ ntp_status)])))"




text \<open>The status word of \<open>draw_temperature\<close>, the same in both copies.\<close>

definition status :: "real \<Rightarrow> string" where
  "status temp = (if temp < 50 then ''COOL'' else if temp < 70 then ''WARM'' else ''HOT!'')"

text \<open>
  \<open>draw_temperature\<close>. The title is drawn first. The installer copy reads
  \<open>config['temperature_unit']\<close> when there is a reading; a missing key raises
  \<open>KeyError\<close>, which the handler turns into \<open>Temp Error\<close>, drawn after the title.
\<close>

definition draw_temperature :: "variant \<Rightarrow> 'w os \<Rightarrow> monitor \<Rightarrow> 'w \<Rightarrow> canvas" where
  "draw_temperature v os st w =
     ((0, 0), ''Temperature'') #
     (case v of
        Monitor \<Rightarrow>
          (case get_temperature os w of
             Some temp \<Rightarrow>
               [((0, 20), ''CPU: '' @ format_1f os temp @ degree @ ''C''),
                ((0, 40), ''Status: '' @ status temp)]
           | None \<Rightarrow>
               [((0, 20), ''Temperature sensor''),
                ((0, 32), ''not available'')])
      | Installer \<Rightarrow>
          (case get_temperature os w of
             Some temp \<Rightarrow>
               (case config st (KStr ''temperature_unit'') of
                  None \<Rightarrow> [((0, 0), ''Temp Error'')]
                | Some unit \<Rightarrow>
                    (if unit = JString ''F''
                     then (let temp_f = (temp * 9 / 5) + 32
                           in [((0, 16), ''CPU: '' @ format_1f os temp_f @ degree @ ''F''),
                               ((0, 28), ''     '' @ format_1f os temp @ degree @ ''C'')])
                     else [((0, 16), ''CPU: '' @ format_1f os temp @ degree @ ''C'')])
                    @ [((0, 40), ''Status: '' @ status temp)])
           | None \<Rightarrow> [((0, 16), ''Sensor unavailable'')]))"





subsection \<open>Drawing on a draw object that can fail\<close>


text \<open>What a \<open>try\<close> block does, step by step: a \<open>draw.text\<close> call, or a raise.\<close>

datatype step = Text "(int \<times> int) \<times> string" | Raise string












subsection \<open>Example objects\<close>

text \<open>A rendering with one decimal, for the example world.\<close>

definition one_decimal :: "real \<Rightarrow> string" where
  "one_decimal x =
     (let n = \<lfloor>x * 10 + 1 / 2\<rfloor>
      in (if n < 0 then ''-'' else []) @ str_int (\<bar>n\<bar> div 10) @ ''.'' @ str_int (\<bar>n\<bar> mod 10))"

text \<open>
  A world that is just the current time: every \<open>ntpdate\<close> call takes ten seconds
  and only \<open>time.google.com\<close> answers; \<open>pytz\<close> knows every string; the
  configuration file cannot be written; no metric can be read.
\<close>

definition example_os :: "real os" where
  "example_os =
     \<lparr>ntpdate = (\<lambda>s w. (s = ''time.google.com'', w + 10)),
      clock = (\<lambda>w. w),
      pytz_timezone = (\<lambda>x. case x of JString s \<Rightarrow> Some s | _ \<Rightarrow> None),
      write_file = (\<lambda>c f. f),
      format_1f = one_decimal,
      strftime = (\<lambda>z f w. f),
      psutil_system = (\<lambda>w. None),
      network = (\<lambda>w. None),
      thermal_file = (\<lambda>p w. None),
      sensors_temperatures = (\<lambda>w. None),
      proc_uptime = (\<lambda>w. None)\<rparr>"

text \<open>The object \<open>__init__\<close> builds when there is no configuration file.\<close>

definition example_monitor :: "variant \<Rightarrow> monitor" where
  "example_monitor v =
     \<lparr>config = default_config v, current_mode = 0, device = True, timezone = ''UTC'',
      last_ntp_sync = 0, config_file = Missing\<rparr>"

text \<open>
  The object \<open>__init__\<close> builds from a configuration file that names a timezone
  outside the list of \<open>cycle_timezone\<close>.
\<close>

definition nairobi_file :: config_file where
  "nairobi_file = Parsed (JObject [(''timezone'', JString ''Africa/Nairobi'')])"

definition nairobi_monitor :: monitor where
  "nairobi_monitor =
     \<lparr>config = load_config Installer nairobi_file, current_mode = 0, device = True,
      timezone = ''Africa/Nairobi'', last_ntp_sync = 0, config_file = nairobi_file\<rparr>"

text \<open>A world where server \<open>B\<close> answers and no other, and an object configured for \<open>[A, B]\<close>.\<close>

definition ab_os :: "real os" where
  "ab_os = example_os\<lparr>ntpdate := (\<lambda>s w. (s = ''B'', w + 10))\<rparr>"

definition ab_monitor :: monitor where
  "ab_monitor =
     (example_monitor Installer)
       \<lparr>config := (default_config Installer)
          (KStr ''ntp_servers'' \<mapsto> JArray [JString ''A'', JString ''B'']),
        last_ntp_sync := 5\<rparr>"

text \<open>A world whose first thermal file reads \<open>m\<close> millidegrees.\<close>

definition warm_os :: "int \<Rightarrow> real os" where
  "warm_os m =
     example_os\<lparr>thermal_file :=
       (\<lambda>p w. if p = ''/sys/class/thermal/thermal_zone0/temp'' then Some m else None)\<rparr>"

text \<open>A world that has been up for 90061 seconds.\<close>

definition uptime_os :: "real os" where
  "uptime_os = example_os\<lparr>proc_uptime := (\<lambda>w. Some 90061)\<rparr>"

text \<open>An object configured for Fahrenheit.\<close>

definition fahrenheit_monitor :: monitor where
  "fahrenheit_monitor =
     (example_monitor Installer)
       \<lparr>config := (default_config Installer)(KStr ''temperature_unit'' \<mapsto> JString ''F'')\<rparr>"




section \<open>Properties\<close>

subsection \<open>Display modes\<close>

lemma example_init: "init v example_os Missing True = Inr (example_monitor v)"
  by (cases v)
    (simp_all add: init_def load_config_def default_config_def example_os_def
      example_monitor_def)

lemma button_next_mode:
  "button_callback v os 16 (st, w) =
     (st\<lparr>current_mode := (current_mode st + 1) mod int (length (display_modes v))\<rparr>, w)"
  by (simp add: button_callback_def button_pins_def)

lemma next_mode_iterate:
  "(button_callback v os 16 ^^ N) (st, w) =
     (st\<lparr>current_mode := (if N = 0 then current_mode st
         else (current_mode st + int N) mod int (length (display_modes v)))\<rparr>, w)"
proof (induction N)
  case 0
  then show ?case by simp
next
  case (Suc N)
  then show ?case
    by (simp add: button_next_mode mod_simps algebra_simps)
qed

text \<open>
  C1. F1 is channel 16. One F1 press sets the mode index to the previous index plus
  one, modulo the number of display modes; from index 0, \<open>N\<close> presses in a row leave
  the index at \<open>N mod\<close> the number of display modes. This holds for both copies.
\<close>

theorem next_mode_counts:
  assumes "current_mode st = 0"
  shows "current_mode (fst ((button_callback v os 16 ^^ N) (st, w)))
           = int N mod int (length (display_modes v))
    \<and> current_mode (fst (button_callback v os 16 (st', w')))
           = (current_mode st' + 1) mod int (length (display_modes v))
    \<and> button_pins ! 0 = 16"
  using assms
  by (simp add: button_next_mode next_mode_iterate button_pins_def)

theorem next_mode_counts_witness:
  "current_mode (example_monitor Installer) = 0
   \<and> current_mode (fst ((button_callback Installer example_os 16 ^^ 7)
        (example_monitor Installer, 0))) = 2
   \<and> current_mode (fst (button_callback Installer example_os 16
        (example_monitor Installer\<lparr>current_mode := 4\<rparr>, 0))) = 0"
proof -
  have h: "current_mode (example_monitor Installer) = 0"
    by (simp add: example_monitor_def)
  from next_mode_counts [OF h, where v = Installer and os = example_os and N = 7
      and w = 0 and st' = "example_monitor Installer\<lparr>current_mode := 4\<rparr>" and w' = 0] h
  show ?thesis by (simp add: display_modes_def)
qed

lemma display_modes_pos: "0 < int (length (display_modes v))"
  by (cases v) (simp_all add: display_modes_def)

lemma cycle_timezone_mode: "current_mode (cycle_timezone v os st) = current_mode st"
  by (simp add: cycle_timezone_def save_config_def Let_def split: option.splits)

lemma sync_ntp_state:
  "sync_ntp os st w = (r, st', w', tr) \<Longrightarrow> \<exists>l. st' = st\<lparr>last_ntp_sync := l\<rparr>"
  by (auto simp: sync_ntp_def split: option.splits sum.splits prod.splits
      intro: exI[of _ "last_ntp_sync st"])

lemma sync_ntp_mode:
  "sync_ntp os st w = (r, st', w', tr) \<Longrightarrow> current_mode st' = current_mode st"
  by (drule sync_ntp_state) auto

lemma button_callback_mode_range:
  assumes "0 \<le> current_mode st" "current_mode st < int (length (display_modes v))"
  shows "0 \<le> current_mode (fst (button_callback v os ch (st, w)))
       \<and> current_mode (fst (button_callback v os ch (st, w))) < int (length (display_modes v))"
  using assms display_modes_pos[of v]
  by (auto simp: button_callback_def cycle_timezone_mode split: prod.splits
      dest: sync_ntp_mode)

lemma auto_ntp_sync_mode: "current_mode (fst (auto_ntp_sync os (st, w))) = current_mode st"
  by (auto simp: auto_ntp_sync_def split: prod.splits dest: sync_ntp_mode)

lemma reachable_mode_range:
  "reachable v os sw \<Longrightarrow>
     0 \<le> current_mode (fst sw) \<and> current_mode (fst sw) < int (length (display_modes v))"
proof (induction rule: reachable.induct)
  case (reach_init cf dev st w)
  then show ?case
    using display_modes_pos[of v]
    by (auto simp: init_def Let_def split: option.splits)
next
  case (reach_button sw channel)
  then show ?case
    using button_callback_mode_range[of "fst sw" v os channel "snd sw"] by simp
next
  case (reach_tick sw)
  then show ?case
    using auto_ntp_sync_mode[of os "fst sw" "snd sw"] by simp
next
  case (reach_world st w w')
  then show ?case by simp
qed

text \<open>
  C2, as the code has it. The list of display modes is fixed per copy: the five modes
  datetime, system_info, network_info, temperature, uptime in \<open>installer.py\<close>, and
  the first four of them, without uptime, in \<open>NanoPiNEOOLEDSystemMonitor.py\<close>. The
  modes of a list are pairwise different, and in every reachable state the mode index
  is a position of the list, so exactly one mode is current.
\<close>

theorem display_modes_fixed:
  "display_modes Installer =
     [''datetime'', ''system_info'', ''network_info'', ''temperature'', ''uptime'']
   \<and> display_modes Monitor = [''datetime'', ''system_info'', ''network_info'', ''temperature'']
   \<and> distinct (display_modes v)
   \<and> (reachable v os (st, w) \<longrightarrow>
        0 \<le> current_mode st \<and> current_mode st < int (length (display_modes v)))"
  using reachable_mode_range[of v os "(st, w)"]
  by (cases v) (simp_all add: display_modes_def)

theorem display_modes_fixed_witness:
  "reachable Installer example_os
     (fst (button_callback Installer example_os 16 (example_monitor Installer, 0)), 0::real)
   \<and> current_mode (fst (button_callback Installer example_os 16
        (example_monitor Installer, 0))) = 1
   \<and> 1 < int (length (display_modes Installer))"
proof -
  let ?sw = "button_callback Installer example_os 16 (example_monitor Installer, 0)"
  have r0: "reachable Installer example_os (example_monitor Installer, 0)"
    by (rule reach_init [OF example_init])
  have "reachable Installer example_os ?sw"
    by (rule reach_button [OF r0])
  then have r1: "reachable Installer example_os (fst ?sw, 0)"
    by (simp add: button_callback_def button_pins_def)
  have m: "current_mode (fst ?sw) = 1"
    by (simp add: button_callback_def button_pins_def example_monitor_def display_modes_def)
  from display_modes_fixed [of Installer example_os "fst ?sw" 0] r1 m
  show ?thesis by simp
qed

text \<open>
  The list of \<open>NanoPiNEOOLEDSystemMonitor.py\<close> is not the list of five: it has four
  modes and no uptime.
\<close>

theorem display_modes_monitor_counterexample:
  "display_modes Monitor \<noteq>
     [''datetime'', ''system_info'', ''network_info'', ''temperature'', ''uptime'']
   \<and> length (display_modes Monitor) = 4"
  by (simp add: display_modes_def)

subsection \<open>Cycling the timezone\<close>

lemma timezones_length: "length (timezones v) = 11"
  by (cases v) (simp_all add: timezones_def)

lemma timezones_distinct: "distinct (timezones v)"
  by (cases v) (simp_all add: timezones_def)

lemma index_of_nth: "distinct xs \<Longrightarrow> i < length xs \<Longrightarrow> index_of xs (xs ! i) = i"
proof (induction xs arbitrary: i)
  case Nil
  then show ?case by simp
next
  case (Cons x xs)
  then show ?case by (cases i) auto
qed

lemma index_of_mem: "x \<in> set xs \<Longrightarrow> index_of xs x < length xs \<and> xs ! index_of xs x = x"
  by (induction xs) auto

lemma current_index_nth:
  "i < 11 \<Longrightarrow> current_index v (JString (timezones v ! i)) = i"
  using index_of_nth[OF timezones_distinct, of i v]
  by (simp add: current_index_def timezones_length)

lemma current_index_less: "current_index v z < 11"
  using index_of_mem[of _ "timezones v"]
  by (auto simp: current_index_def timezones_length split: json.splits)

lemma cycle_timezone_config:
  "config st (KStr ''timezone'') = Some z \<Longrightarrow>
   config (cycle_timezone v os st) (KStr ''timezone'') =
     Some (JString (timezones v ! ((current_index v z + 1) mod 11)))"
  by (simp add: cycle_timezone_def save_config_def Let_def timezones_length split: option.splits)

lemma cycle_timezone_iterate:
  assumes "config st (KStr ''timezone'') = Some z"
  shows "config ((cycle_timezone v os ^^ Suc n) st) (KStr ''timezone'') =
     Some (JString (timezones v ! ((current_index v z + Suc n) mod 11)))"
proof (induction n)
  case 0
  then show ?case using assms by (simp add: cycle_timezone_config)
next
  case (Suc n)
  have "config ((cycle_timezone v os ^^ Suc (Suc n)) st) (KStr ''timezone'') =
    Some (JString (timezones v ! ((current_index v
        (JString (timezones v ! ((current_index v z + Suc n) mod 11))) + 1) mod 11)))"
    using cycle_timezone_config[OF Suc] by simp
  also have "current_index v (JString (timezones v ! ((current_index v z + Suc n) mod 11)))
      = (current_index v z + Suc n) mod 11"
    by (rule current_index_nth) simp
  finally show ?case by (simp add: mod_simps)
qed

lemma cycle_timezone_round:
  assumes "config st (KStr ''timezone'') = Some z"
  shows "config ((cycle_timezone v os ^^ 11) st) (KStr ''timezone'') =
     Some (JString (timezones v ! current_index v z))"
proof -
  have "(11::nat) = Suc 10" by simp
  then have "config ((cycle_timezone v os ^^ 11) st) (KStr ''timezone'') =
     Some (JString (timezones v ! ((current_index v z + Suc 10) mod 11)))"
    using cycle_timezone_iterate[OF assms, where v = v and os = os and n = 10] by metis
  then show ?thesis using current_index_less[of v z] by simp
qed

lemma current_index_known:
  "z \<in> JString ` set (timezones v) \<Longrightarrow> JString (timezones v ! current_index v z) = z"
  using index_of_mem[of _ "timezones v"] by (auto simp: current_index_def)

lemma current_index_unknown:
  "z \<notin> JString ` set (timezones v) \<Longrightarrow> current_index v z = 0"
  by (auto simp: current_index_def split: json.splits)

lemma nairobi_init: "init Installer example_os nairobi_file True = Inr nairobi_monitor"
  by (simp add: init_def load_config_def dict_update_def default_config_def example_os_def
      nairobi_monitor_def nairobi_file_def)

text \<open>
  C7, as the code has it. Both timezone lists have eleven entries and start with UTC.
  One \<open>cycle_timezone\<close> moves the configured timezone from the entry at position
  \<open>i\<close> to the entry at position \<open>i + 1\<close>, wrapping at the end, and from a value that
  is not in the list to the entry at position 1 (the value counts as position 0).
  Applying it as many times as the list is long returns a timezone of the list to
  itself, and takes a value that is not in the list to the first entry, UTC. Without
  a \<open>timezone\<close> key nothing changes.
\<close>

theorem cycle_timezone_cyclic:
  "length (timezones v) = 11 \<and> timezones v ! 0 = ''UTC''
   \<and> (config st (KStr ''timezone'') = None \<longrightarrow> cycle_timezone v os st = st)
   \<and> (i < length (timezones v) \<and> config st (KStr ''timezone'') = Some (JString (timezones v ! i)) \<longrightarrow>
        config (cycle_timezone v os st) (KStr ''timezone'')
          = Some (JString (timezones v ! ((i + 1) mod length (timezones v)))))
   \<and> (config st (KStr ''timezone'') = Some z \<and> z \<notin> JString ` set (timezones v) \<longrightarrow>
        config (cycle_timezone v os st) (KStr ''timezone'') = Some (JString (timezones v ! 1)))
   \<and> (config st (KStr ''timezone'') = Some z \<and> z \<in> JString ` set (timezones v) \<longrightarrow>
        config ((cycle_timezone v os ^^ length (timezones v)) st) (KStr ''timezone'') = Some z)
   \<and> (config st (KStr ''timezone'') = Some z \<and> z \<notin> JString ` set (timezones v) \<longrightarrow>
        config ((cycle_timezone v os ^^ length (timezones v)) st) (KStr ''timezone'')
          = Some (JString (timezones v ! 0)))"
proof -
  have len: "length (timezones v) = 11"
    by (rule timezones_length)
  have utc: "timezones v ! 0 = ''UTC''"
    by (cases v) (simp_all add: timezones_def)
  have none: "config st (KStr ''timezone'') = None \<longrightarrow> cycle_timezone v os st = st"
    by (simp add: cycle_timezone_def)
  have step: "i < length (timezones v) \<and> config st (KStr ''timezone'') = Some (JString (timezones v ! i)) \<longrightarrow>
        config (cycle_timezone v os st) (KStr ''timezone'')
          = Some (JString (timezones v ! ((i + 1) mod length (timezones v))))"
    by (simp add: cycle_timezone_config current_index_nth len)
  have step0: "config st (KStr ''timezone'') = Some z \<and> z \<notin> JString ` set (timezones v) \<longrightarrow>
        config (cycle_timezone v os st) (KStr ''timezone'') = Some (JString (timezones v ! 1))"
    by (simp add: cycle_timezone_config current_index_unknown)
  have round: "config st (KStr ''timezone'') = Some z \<and> z \<in> JString ` set (timezones v) \<longrightarrow>
        config ((cycle_timezone v os ^^ length (timezones v)) st) (KStr ''timezone'') = Some z"
    by (simp add: cycle_timezone_round current_index_known len)
  have round0: "config st (KStr ''timezone'') = Some z \<and> z \<notin> JString ` set (timezones v) \<longrightarrow>
        config ((cycle_timezone v os ^^ length (timezones v)) st) (KStr ''timezone'')
          = Some (JString (timezones v ! 0))"
    by (simp add: cycle_timezone_round current_index_unknown len)
  from len utc none step step0 round round0 show ?thesis by blast
qed

theorem cycle_timezone_cyclic_witness:
  "config (example_monitor Monitor) (KStr ''timezone'') = Some (JString (timezones Monitor ! 0))
   \<and> config (cycle_timezone Monitor example_os (example_monitor Monitor)) (KStr ''timezone'')
        = Some (JString ''EST'')
   \<and> config ((cycle_timezone Monitor example_os ^^ length (timezones Monitor))
        (example_monitor Monitor)) (KStr ''timezone'')
        = Some (JString ''UTC'')
   \<and> config nairobi_monitor (KStr ''timezone'') = Some (JString ''Africa/Nairobi'')
   \<and> JString ''Africa/Nairobi'' \<notin> JString ` set (timezones Installer)
   \<and> config (cycle_timezone Installer example_os nairobi_monitor) (KStr ''timezone'')
        = Some (JString ''US/Eastern'')"
proof -
  have h: "config (example_monitor Monitor) (KStr ''timezone'') = Some (JString (timezones Monitor ! 0))"
    by (simp add: example_monitor_def default_config_def timezones_def)
  have m: "JString (timezones Monitor ! 0) \<in> JString ` set (timezones Monitor)"
    by (simp add: timezones_def)
  have k: "config nairobi_monitor (KStr ''timezone'') = Some (JString ''Africa/Nairobi'')"
    by (simp add: nairobi_monitor_def nairobi_file_def load_config_def dict_update_def)
  have n: "JString ''Africa/Nairobi'' \<notin> JString ` set (timezones Installer)"
    by (simp add: timezones_def image_iff)
  from cycle_timezone_cyclic [where v = Monitor and st = "example_monitor Monitor"
      and os = example_os and i = 0 and z = "JString (timezones Monitor ! 0)"] h m
  have "config (cycle_timezone Monitor example_os (example_monitor Monitor)) (KStr ''timezone'')
        = Some (JString ''EST'')
     \<and> config ((cycle_timezone Monitor example_os ^^ length (timezones Monitor))
        (example_monitor Monitor)) (KStr ''timezone'')
        = Some (JString ''UTC'')"
    by (simp add: timezones_def)
  moreover from cycle_timezone_cyclic [where v = Installer and st = nairobi_monitor
      and os = example_os and i = 0 and z = "JString ''Africa/Nairobi''"] k n
  have "config (cycle_timezone Installer example_os nairobi_monitor) (KStr ''timezone'')
        = Some (JString ''US/Eastern'')"
    by (simp add: timezones_def)
  ultimately show ?thesis using h k n by simp
qed

text \<open>
  Started from a timezone outside the list, eleven applications end at UTC, not at
  the timezone they started from.
\<close>

theorem cycle_timezone_unknown_counterexample:
  "config nairobi_monitor (KStr ''timezone'') = Some (JString ''Africa/Nairobi'')
   \<and> config ((cycle_timezone Installer example_os ^^ length (timezones Installer)) nairobi_monitor)
       (KStr ''timezone'') = Some (JString ''UTC'')
   \<and> config ((cycle_timezone Installer example_os ^^ length (timezones Installer)) nairobi_monitor)
       (KStr ''timezone'') \<noteq> config nairobi_monitor (KStr ''timezone'')"
proof -
  have k: "config nairobi_monitor (KStr ''timezone'') = Some (JString ''Africa/Nairobi'')"
    by (simp add: nairobi_monitor_def nairobi_file_def load_config_def dict_update_def)
  have n: "JString ''Africa/Nairobi'' \<notin> JString ` set (timezones Installer)"
    by (simp add: timezones_def image_iff)
  have "config ((cycle_timezone Installer example_os ^^ length (timezones Installer))
        nairobi_monitor) (KStr ''timezone'') = Some (JString (timezones Installer ! 0))"
    using cycle_timezone_round[OF k, where v = Installer and os = example_os]
      current_index_unknown[OF n] by (simp only: timezones_length)
  moreover have "timezones Installer ! 0 = ''UTC''"
    by (simp add: timezones_def)
  ultimately show ?thesis using k by (simp only:) simp
qed

subsection \<open>Time synchronisation\<close>

lemma sync_loop_attempts:
  "sync_loop os servers t0 w = (r, l, w', tr) \<Longrightarrow> attempts_from os w tr w'"
proof (induction servers arbitrary: w r l w' tr)
  case Nil
  then show ?case by simp
next
  case (Cons server rest)
  obtain ok w1 where c: "check_call os server w = (ok, w1)"
    by (cases "check_call os server w")
  show ?case
  proof (cases ok)
    case True
    with Cons.prems c show ?thesis by auto
  next
    case False
    obtain r2 l2 w2 tr2 where s: "sync_loop os rest t0 w1 = (r2, l2, w2, tr2)"
      by (cases "sync_loop os rest t0 w1") auto
    from Cons.IH[OF s] Cons.prems c False s show ?thesis by auto
  qed
qed

lemma sync_loop_order:
  "sync_loop os servers t0 w = (r, l, w', tr) \<Longrightarrow>
     map fst tr = take (length tr) servers
     \<and> (\<forall>i < length tr. snd (tr ! i) \<longrightarrow> Suc i = length tr)"
proof (induction servers arbitrary: w r l w' tr)
  case Nil
  then show ?case by simp
next
  case (Cons server rest)
  obtain ok w1 where c: "check_call os server w = (ok, w1)"
    by (cases "check_call os server w")
  show ?case
  proof (cases ok)
    case True
    with Cons.prems c show ?thesis by auto
  next
    case False
    obtain r2 l2 w2 tr2 where s: "sync_loop os rest t0 w1 = (r2, l2, w2, tr2)"
      by (cases "sync_loop os rest t0 w1") auto
    from Cons.prems c False s have tr: "tr = (server, False) # tr2" by auto
    from Cons.IH[OF s] have ih: "map fst tr2 = take (length tr2) rest"
      "\<forall>i < length tr2. snd (tr2 ! i) \<longrightarrow> Suc i = length tr2" by auto
    have "\<forall>i < length tr. snd (tr ! i) \<longrightarrow> Suc i = length tr"
    proof (intro allI impI)
      fix i assume "i < length tr" "snd (tr ! i)"
      then show "Suc i = length tr"
        using ih(2) tr by (cases i) auto
    qed
    with ih(1) tr show ?thesis by simp
  qed
qed

lemma sync_loop_result:
  "sync_loop os servers t0 w = (r, l, w', tr) \<Longrightarrow>
     r = (\<exists>a \<in> set tr. snd a)
     \<and> (r \<longrightarrow> l = clock os w')
     \<and> (\<not> r \<longrightarrow> l = t0 \<and> map fst tr = servers)"
proof (induction servers arbitrary: w r l w' tr)
  case Nil
  then show ?case by auto
next
  case (Cons server rest)
  obtain ok w1 where c: "check_call os server w = (ok, w1)"
    by (cases "check_call os server w")
  show ?case
  proof (cases ok)
    case True
    with Cons.prems c show ?thesis by auto
  next
    case False
    obtain r2 l2 w2 tr2 where s: "sync_loop os rest t0 w1 = (r2, l2, w2, tr2)"
      by (cases "sync_loop os rest t0 w1") auto
    from Cons.IH[OF s] Cons.prems c False s show ?thesis by auto
  qed
qed

text \<open>
  C3. When the configuration holds a list of servers, \<open>sync_ntp\<close> makes its attempts
  on the servers in the order of the list, each after the other; only the last attempt
  made can have succeeded, so it stops at the first success; it returns \<open>True\<close>
  exactly when an attempt succeeded, and then \<open>last_ntp_sync\<close> is the time right
  after that attempt; when it returns \<open>False\<close> every server has been tried and the
  object is unchanged. This holds for both copies.
\<close>

theorem sync_ntp_first_success:
  assumes "config st (KStr ''ntp_servers'') = Some (JArray servers)"
    and "sync_ntp os st w = (r, st', w', tr)"
  shows "attempts_from os w tr w'
    \<and> map fst tr = take (length tr) servers
    \<and> (\<forall>i < length tr. snd (tr ! i) \<longrightarrow> Suc i = length tr)
    \<and> r = (\<exists>a \<in> set tr. snd a)
    \<and> (r \<longrightarrow> st' = st\<lparr>last_ntp_sync := clock os w'\<rparr>)
    \<and> (\<not> r \<longrightarrow> st' = st \<and> map fst tr = servers)"
proof -
  obtain l where s: "sync_loop os servers (last_ntp_sync st) w = (r, l, w', tr)"
    and st': "st' = st\<lparr>last_ntp_sync := l\<rparr>"
    using assms by (auto simp: sync_ntp_def split: prod.splits)
  from sync_loop_result[OF s] st' have
    "r = (\<exists>a \<in> set tr. snd a)" "r \<longrightarrow> st' = st\<lparr>last_ntp_sync := clock os w'\<rparr>"
    "\<not> r \<longrightarrow> st' = st \<and> map fst tr = servers"
    by auto
  with sync_loop_attempts[OF s] sync_loop_order[OF s] show ?thesis by blast
qed

lemma sync_ab:
  "sync_ntp ab_os ab_monitor 100 =
     (True, ab_monitor\<lparr>last_ntp_sync := 120\<rparr>, 120, [(JString ''A'', False), (JString ''B'', True)])"
  by (simp add: sync_ntp_def ab_os_def ab_monitor_def check_call_def example_os_def)

theorem sync_ntp_first_success_witness:
  "config ab_monitor (KStr ''ntp_servers'') = Some (JArray [JString ''A'', JString ''B''])
   \<and> sync_ntp ab_os ab_monitor 100 =
        (True, ab_monitor\<lparr>last_ntp_sync := 120\<rparr>, 120,
         [(JString ''A'', False), (JString ''B'', True)])
   \<and> ab_monitor\<lparr>last_ntp_sync := 120\<rparr> = ab_monitor\<lparr>last_ntp_sync := clock ab_os 120\<rparr>
   \<and> attempts_from ab_os 100 [(JString ''A'', False), (JString ''B'', True)] 120"
proof -
  have c: "config ab_monitor (KStr ''ntp_servers'') = Some (JArray [JString ''A'', JString ''B''])"
    by (simp add: ab_monitor_def)
  from sync_ntp_first_success [OF c sync_ab] c sync_ab
  show ?thesis by simp
qed

lemma sync_all_fail:
  "sync_ntp (example_os\<lparr>ntpdate := (\<lambda>s w. (False, w + 10))\<rparr>) ab_monitor 100 =
     (False, ab_monitor, 120, [(JString ''A'', False), (JString ''B'', False)])"
  by (simp add: sync_ntp_def ab_monitor_def check_call_def example_os_def)

subsection \<open>Loading the configuration\<close>

lemma update_members_add: "update_members d kvs = d ++ py_dict kvs"
proof (induction kvs arbitrary: d)
  case Nil
  then show ?case by (simp add: py_dict_def)
next
  case (Cons kv rest)
  have "update_members d (kv # rest) = update_members (d(KStr (fst kv) \<mapsto> snd kv)) rest"
    by simp
  also have "\<dots> = d(KStr (fst kv) \<mapsto> snd kv) ++ py_dict rest"
    by (rule Cons.IH)
  also have "\<dots> = d ++ (Map.empty(KStr (fst kv) \<mapsto> snd kv) ++ py_dict rest)"
    by (simp add: map_add_def fun_eq_iff split: option.splits)
  also have "Map.empty(KStr (fst kv) \<mapsto> snd kv) ++ py_dict rest
      = update_members (Map.empty(KStr (fst kv) \<mapsto> snd kv)) rest"
    by (rule Cons.IH [symmetric])
  also have "\<dots> = py_dict (kv # rest)"
    by (simp add: py_dict_def)
  finally show ?case .
qed

lemma py_dict_snoc:
  "py_dict (kvs @ [kv]) = (py_dict kvs)(KStr (fst kv) \<mapsto> snd kv)"
proof -
  have "update_members d (kvs @ [kv]) = (update_members d kvs)(KStr (fst kv) \<mapsto> snd kv)" for d
    by (induction kvs arbitrary: d) simp_all
  then show ?thesis by (simp add: py_dict_def)
qed

lemma py_dict_lookup: "py_dict kvs (KStr s) = map_of (rev kvs) s"
proof (induction kvs rule: rev_induct)
  case Nil
  then show ?case by (simp add: py_dict_def)
next
  case (snoc kv kvs)
  then show ?case by (cases kv) (simp add: py_dict_snoc)
qed

lemma load_config_object:
  "load_config v (Parsed (JObject kvs)) = default_config v ++ py_dict kvs"
  by (simp add: load_config_def dict_update_def update_members_add)

text \<open>
  A file whose JSON value cannot be iterated, or is an empty list or any string,
  leaves the defaults as they are.
\<close>

lemma load_config_scalar:
  "load_config v (Parsed JNull) = default_config v"
  "load_config v (Parsed (JBool b)) = default_config v"
  "load_config v (Parsed (JInt i)) = default_config v"
  "load_config v (Parsed (JFloat r)) = default_config v"
  "load_config v (Parsed JNaN) = default_config v"
  "load_config v (Parsed (JInfinity b)) = default_config v"
  "load_config v (Parsed (JArray [])) = default_config v"
  "load_config v (Parsed (JString s)) = default_config v"
  by (cases s; simp add: load_config_def dict_update_def)+

text \<open>
  C4, as the code has it. A missing file, or one that fails to open or to parse as
  JSON, gives exactly the default configuration of the copy: in \<open>installer.py\<close> the
  keys timezone, display_brightness, ntp_servers, refresh_rate, temperature_unit,
  show_seconds; in \<open>NanoPiNEOOLEDSystemMonitor.py\<close> the keys timezone,
  display_brightness, auto_brightness, ntp_servers, display_timeout, refresh_rate.
  A file that holds a JSON object overrides the defaults key by key with the mapping
  it stores (for a name written twice, the last value): a stored value wins, a key
  that is not stored keeps its default.
\<close>

theorem load_config_defaults:
  "load_config v Missing = default_config v
   \<and> load_config v Unreadable = default_config v
   \<and> dom (default_config Installer) =
       {KStr ''timezone'', KStr ''display_brightness'', KStr ''ntp_servers'',
        KStr ''refresh_rate'', KStr ''temperature_unit'', KStr ''show_seconds''}
   \<and> dom (default_config Monitor) =
       {KStr ''timezone'', KStr ''display_brightness'', KStr ''auto_brightness'',
        KStr ''ntp_servers'', KStr ''display_timeout'', KStr ''refresh_rate''}
   \<and> load_config v (Parsed (JObject kvs)) = default_config v ++ py_dict kvs
   \<and> load_config v (Parsed (JObject kvs)) k =
       (case py_dict kvs k of None \<Rightarrow> default_config v k | Some x \<Rightarrow> Some x)
   \<and> py_dict kvs (KStr s) = map_of (rev kvs) s"
proof -
  have "dom (default_config Installer) =
       {KStr ''timezone'', KStr ''display_brightness'', KStr ''ntp_servers'',
        KStr ''refresh_rate'', KStr ''temperature_unit'', KStr ''show_seconds''}"
    by (auto simp: default_config_def)
  moreover have "dom (default_config Monitor) =
       {KStr ''timezone'', KStr ''display_brightness'', KStr ''auto_brightness'',
        KStr ''ntp_servers'', KStr ''display_timeout'', KStr ''refresh_rate''}"
    by (auto simp: default_config_def)
  moreover have "load_config v (Parsed (JObject kvs)) k =
       (case py_dict kvs k of None \<Rightarrow> default_config v k | Some x \<Rightarrow> Some x)"
    by (simp add: load_config_object map_add_def)
  ultimately show ?thesis
    by (simp add: load_config_object py_dict_lookup) (simp add: load_config_def)
qed

text \<open>
  The claim fails twice. The defaults of \<open>NanoPiNEOOLEDSystemMonitor.py\<close> have no
  temperature_unit and no show_seconds, and have auto_brightness and display_timeout
  instead. And a file that is well-formed JSON but no configuration, the list
  \<open>[["timezone", "Asia/Tokyo"], 5]\<close>, does not give the defaults: \<open>update\<close> assigns
  the first pair before it raises on the second element, and the assignment stays.
\<close>

theorem load_config_monitor_counterexample:
  "load_config Monitor Missing (KStr ''temperature_unit'') = None
   \<and> load_config Monitor Missing (KStr ''show_seconds'') = None
   \<and> load_config Monitor Missing (KStr ''auto_brightness'') = Some (JBool True)
   \<and> load_config Monitor Missing (KStr ''display_timeout'') = Some (JInt 0)
   \<and> dict_update (default_config Installer)
        (JArray [JArray [JString ''timezone'', JString ''Asia/Tokyo''], JInt 5])
      = ((default_config Installer)(KStr ''timezone'' \<mapsto> JString ''Asia/Tokyo''),
         Some TypeError)
   \<and> load_config Installer
        (Parsed (JArray [JArray [JString ''timezone'', JString ''Asia/Tokyo''], JInt 5]))
        (KStr ''timezone'') = Some (JString ''Asia/Tokyo'')
   \<and> default_config Installer (KStr ''timezone'') = Some (JString ''UTC'')"
  by (simp add: load_config_def dict_update_def default_config_def)

subsection \<open>Temperature\<close>

lemma warm_temperature: "get_temperature (warm_os m) w = Some (real_of_int m / 1000)"
  by (simp add: get_temperature_def warm_os_def temp_files_def)


lemma od32: "one_decimal 32 = ''32.0''"
  by (simp add: one_decimal_def str_int_def)

lemma od212: "one_decimal 212 = ''212.0''"
  by (simp add: one_decimal_def str_int_def)

lemma od499: "one_decimal (499/10) = ''49.9''"
  by (simp add: one_decimal_def str_int_def)

lemma status_cases:
  "(status t = ''COOL'') = (t < 50)"
  "(status t = ''WARM'') = (50 \<le> t \<and> t < 70)"
  "(status t = ''HOT!'') = (70 \<le> t)"
  by (auto simp: status_def)

lemma draw_temperature_last:
  assumes "get_temperature os w = Some t"
    and "v = Installer \<longrightarrow> config st (KStr ''temperature_unit'') \<noteq> None"
  shows "last (draw_temperature v os st w) = ((0, 40), ''Status: '' @ status t)"
  using assms by (cases v) (auto simp: draw_temperature_def Let_def)

text \<open>
  C5. The status word is COOL exactly below 50 degrees, WARM exactly from 50 up to
  but not including 70, and HOT! exactly from 70 on; so 49.9 gives COOL, 50 and 69.9
  give WARM and 70 gives HOT!. When there is a reading (and, in the installer copy,
  the configuration has its temperature_unit entry), the last line drawn is the
  status line with that word. This holds for both copies.
\<close>

theorem temperature_banding:
  "(status t = ''COOL'') = (t < 50)
   \<and> (status t = ''WARM'') = (50 \<le> t \<and> t < 70)
   \<and> (status t = ''HOT!'') = (70 \<le> t)
   \<and> status 49.9 = ''COOL'' \<and> status 50 = ''WARM''
   \<and> status 69.9 = ''WARM'' \<and> status 70 = ''HOT!''
   \<and> (get_temperature os w = Some t
        \<and> (v = Installer \<longrightarrow> config st (KStr ''temperature_unit'') \<noteq> None) \<longrightarrow>
      last (draw_temperature v os st w) = ((0, 40), ''Status: '' @ status t))"
  using draw_temperature_last[of os w t v st]
  by (simp add: status_cases)

theorem temperature_banding_witness:
  "get_temperature (warm_os 49900) 0 = Some 49.9
   \<and> config (example_monitor Installer) (KStr ''temperature_unit'') \<noteq> None
   \<and> last (draw_temperature Installer (warm_os 49900) (example_monitor Installer) 0)
        = ((0, 40), ''Status: COOL'')
   \<and> last (draw_temperature Monitor (warm_os 70000) (example_monitor Monitor) 0)
        = ((0, 40), ''Status: HOT!'')"
proof -
  have a: "get_temperature (warm_os 49900) 0 = Some 49.9"
    by (simp add: warm_temperature)
  have b: "get_temperature (warm_os 70000) 0 = Some 70"
    by (simp add: warm_temperature)
  have c: "config (example_monitor Installer) (KStr ''temperature_unit'') \<noteq> None"
    by (simp add: example_monitor_def default_config_def)
  from temperature_banding [where t = "49.9" and os = "warm_os 49900" and w = 0
      and v = Installer and st = "example_monitor Installer"] a c
  have "last (draw_temperature Installer (warm_os 49900) (example_monitor Installer) 0)
        = ((0, 40), ''Status: COOL'')"
    by simp
  moreover
  from temperature_banding [where t = 70 and os = "warm_os 70000" and w = 0
      and v = Monitor and st = "example_monitor Monitor"] b
  have "last (draw_temperature Monitor (warm_os 70000) (example_monitor Monitor) 0)
        = ((0, 40), ''Status: HOT!'')"
    by simp
  ultimately show ?thesis using a c by simp
qed

subsection \<open>Uptime\<close>

lemma py_int_of_int: "py_int (of_int k) = k"
  by (simp add: py_int_def)

lemma floor_div_pos: "0 < b \<Longrightarrow> \<lfloor>s / real_of_int b\<rfloor> = \<lfloor>s\<rfloor> div b"
  by (simp add: floor_divide_real_eq_div)

lemma floor_div_rem:
  assumes "0 < b" "0 < c"
  shows "\<lfloor>(s - real_of_int b * real_of_int (\<lfloor>s\<rfloor> div b)) / real_of_int c\<rfloor> = \<lfloor>s\<rfloor> mod b div c"
proof -
  have "s - real_of_int b * real_of_int (\<lfloor>s\<rfloor> div b) = s - real_of_int (b * (\<lfloor>s\<rfloor> div b))"
    by simp
  then have "\<lfloor>(s - real_of_int b * real_of_int (\<lfloor>s\<rfloor> div b)) / real_of_int c\<rfloor>
      = \<lfloor>s - real_of_int (b * (\<lfloor>s\<rfloor> div b))\<rfloor> div c"
    using floor_div_pos[OF assms(2), of "s - real_of_int (b * (\<lfloor>s\<rfloor> div b))"] by simp
  also have "\<dots> = (\<lfloor>s\<rfloor> - b * (\<lfloor>s\<rfloor> div b)) div c"
    by (simp only: floor_diff_of_int)
  also have "\<dots> = \<lfloor>s\<rfloor> mod b div c"
    by (simp add: minus_mult_div_eq_mod)
  finally show ?thesis .
qed

lemma py_floordiv_int: "0 < b \<Longrightarrow> py_int (py_floordiv s (real_of_int b)) = \<lfloor>s\<rfloor> div b"
  by (simp add: py_floordiv_def py_int_of_int floor_div_pos)

lemma py_floordiv_mod_int:
  "0 < b \<Longrightarrow> 0 < c \<Longrightarrow>
   py_int (py_floordiv (py_mod s (real_of_int b)) (real_of_int c)) = \<lfloor>s\<rfloor> mod b div c"
  using floor_div_rem[of b c s]
  by (simp add: py_floordiv_def py_mod_def py_int_of_int floor_div_pos)


lemma get_uptime_int:
  assumes "proc_uptime os w = Some s"
  shows "get_uptime os w =
     Some \<lparr>days = \<lfloor>s\<rfloor> div 86400, hours = \<lfloor>s\<rfloor> mod 86400 div 3600,
           minutes = \<lfloor>s\<rfloor> mod 3600 div 60\<rparr>"
proof -
  have d: "py_int (py_floordiv s 86400) = \<lfloor>s\<rfloor> div 86400"
    using py_floordiv_int[of 86400 s] by simp
  have h: "py_int (py_floordiv (py_mod s 86400) 3600) = \<lfloor>s\<rfloor> mod 86400 div 3600"
    using py_floordiv_mod_int[of 86400 3600 s] by simp
  have m: "py_int (py_floordiv (py_mod s 3600) 60) = \<lfloor>s\<rfloor> mod 3600 div 60"
    using py_floordiv_mod_int[of 3600 60 s] by simp
  show ?thesis
    using assms by (simp only: get_uptime_def d h m option.case)
qed


lemma split_seconds:
  "(n::int) = 86400 * (n div 86400) + 3600 * (n mod 86400 div 3600)
      + 60 * (n mod 3600 div 60) + n mod 60"
proof -
  have a: "n = 86400 * (n div 86400) + n mod 86400"
    by simp
  have b: "n mod 86400 = 3600 * (n mod 86400 div 3600) + n mod 86400 mod 3600"
    by simp
  have b': "n mod 86400 mod 3600 = n mod 3600"
    by (simp add: mod_mod_cancel)
  have c: "n mod 3600 = 60 * (n mod 3600 div 60) + n mod 3600 mod 60"
    by simp
  have c': "n mod 3600 mod 60 = n mod 60"
    by (simp add: mod_mod_cancel)
  from a b b' c c' show ?thesis by linarith
qed

lemma hours_range: "0 \<le> (n::int) mod 86400 div 3600 \<and> n mod 86400 div 3600 < 24"
proof -
  have "0 \<le> n mod 86400" "n mod 86400 < 86400" by simp_all
  then show ?thesis by (simp add: pos_imp_zdiv_nonneg_iff)
qed

lemma minutes_range: "0 \<le> (n::int) mod 3600 div 60 \<and> n mod 3600 div 60 < 60"
proof -
  have "0 \<le> n mod 3600" "n mod 3600 < 3600" by simp_all
  then show ?thesis by (simp add: pos_imp_zdiv_nonneg_iff)
qed

lemma get_uptime_floor:
  assumes "proc_uptime os w = Some s"
  shows "get_uptime os w =
     Some \<lparr>days = \<lfloor>s / 86400\<rfloor>, hours = \<lfloor>py_mod s 86400 / 3600\<rfloor>,
           minutes = \<lfloor>py_mod s 3600 / 60\<rfloor>\<rparr>"
  using assms by (simp only: get_uptime_def py_floordiv_def py_int_of_int option.case)

text \<open>
  C6. For every seconds-since-boot value \<open>s\<close> read from \<open>/proc/uptime\<close>,
  \<open>get_uptime\<close> returns days = floor(s / 86400), hours = floor((s mod 86400) / 3600)
  and minutes = floor((s mod 3600) / 60). On the whole seconds these are the integer
  divisions by 86400, 3600 and 60, each applied to the remainder of the one before,
  so that the whole seconds are 86400 days + 3600 hours + 60 minutes plus less than
  a minute, with hours below 24 and minutes below 60; 90061 seconds give one day,
  one hour and one minute.
\<close>

theorem uptime_decomposition:
  "proc_uptime os w = Some s \<longrightarrow>
     (\<exists>u. get_uptime os w = Some u
        \<and> days u = \<lfloor>s / 86400\<rfloor>
        \<and> hours u = \<lfloor>py_mod s 86400 / 3600\<rfloor>
        \<and> minutes u = \<lfloor>py_mod s 3600 / 60\<rfloor>
        \<and> days u = \<lfloor>s\<rfloor> div 86400
        \<and> hours u = \<lfloor>s\<rfloor> mod 86400 div 3600
        \<and> minutes u = \<lfloor>s\<rfloor> mod 86400 mod 3600 div 60
        \<and> \<lfloor>s\<rfloor> = 86400 * days u + 3600 * hours u + 60 * minutes u + \<lfloor>s\<rfloor> mod 60
        \<and> 0 \<le> hours u \<and> hours u < 24 \<and> 0 \<le> minutes u \<and> minutes u < 60
        \<and> (s = 90061 \<longrightarrow> days u = 1 \<and> hours u = 1 \<and> minutes u = 1))"
proof
  assume a: "proc_uptime os w = Some s"
  define n where "n = \<lfloor>s\<rfloor>"
  define u where "u = \<lparr>days = n div 86400, hours = n mod 86400 div 3600,
    minutes = n mod 3600 div 60\<rparr>"
  have g: "get_uptime os w = Some u"
    unfolding u_def n_def by (rule get_uptime_int[OF a])
  have f: "u = \<lparr>days = \<lfloor>s / 86400\<rfloor>, hours = \<lfloor>py_mod s 86400 / 3600\<rfloor>,
           minutes = \<lfloor>py_mod s 3600 / 60\<rfloor>\<rparr>"
    using g get_uptime_floor[OF a] by simp
  have d1: "days u = \<lfloor>s / 86400\<rfloor>" and h1: "hours u = \<lfloor>py_mod s 86400 / 3600\<rfloor>"
    and m1: "minutes u = \<lfloor>py_mod s 3600 / 60\<rfloor>"
    by (simp_all only: f uptime.simps)
  have d2: "days u = n div 86400" and h2: "hours u = n mod 86400 div 3600"
    and m2: "minutes u = n mod 3600 div 60"
    by (simp_all only: u_def uptime.simps)
  have m3: "minutes u = n mod 86400 mod 3600 div 60"
    by (simp add: m2 mod_mod_cancel)
  have sm: "n = 86400 * days u + 3600 * hours u + 60 * minutes u + n mod 60"
    unfolding d2 h2 m2 by (rule split_seconds)
  have r: "0 \<le> hours u \<and> hours u < 24 \<and> 0 \<le> minutes u \<and> minutes u < 60"
    unfolding h2 m2 using hours_range[of n] minutes_range[of n] by blast
  have x: "s = 90061 \<longrightarrow> days u = 1 \<and> hours u = 1 \<and> minutes u = 1"
  proof
    assume "s = 90061"
    then have "n = 90061" by (simp add: n_def)
    then show "days u = 1 \<and> hours u = 1 \<and> minutes u = 1"
      by (simp add: d2 h2 m2)
  qed
  from g d1 h1 m1 d2 h2 m3 sm r x
  show "\<exists>u. get_uptime os w = Some u
        \<and> days u = \<lfloor>s / 86400\<rfloor>
        \<and> hours u = \<lfloor>py_mod s 86400 / 3600\<rfloor>
        \<and> minutes u = \<lfloor>py_mod s 3600 / 60\<rfloor>
        \<and> days u = \<lfloor>s\<rfloor> div 86400
        \<and> hours u = \<lfloor>s\<rfloor> mod 86400 div 3600
        \<and> minutes u = \<lfloor>s\<rfloor> mod 86400 mod 3600 div 60
        \<and> \<lfloor>s\<rfloor> = 86400 * days u + 3600 * hours u + 60 * minutes u + \<lfloor>s\<rfloor> mod 60
        \<and> 0 \<le> hours u \<and> hours u < 24 \<and> 0 \<le> minutes u \<and> minutes u < 60
        \<and> (s = 90061 \<longrightarrow> days u = 1 \<and> hours u = 1 \<and> minutes u = 1)"
    unfolding n_def by blast
qed

theorem uptime_decomposition_witness:
  "proc_uptime uptime_os 0 = Some 90061
   \<and> get_uptime uptime_os 0 = Some \<lparr>days = 1, hours = 1, minutes = 1\<rparr>"
proof -
  have a: "proc_uptime uptime_os 0 = Some 90061"
    by (simp add: uptime_os_def)
  from uptime_decomposition [where os = uptime_os and w = 0 and s = 90061] a
  obtain u where "get_uptime uptime_os 0 = Some u" "days u = 1" "hours u = 1" "minutes u = 1"
    by blast
  then show ?thesis using a by simp
qed

subsection \<open>Keys of the configuration\<close>

text \<open>No reachable state has lost a key of the default configuration.\<close>

lemma cycle_timezone_keeps_keys:
  "config st k \<noteq> None \<Longrightarrow> config (cycle_timezone v os st) k \<noteq> None"
  by (simp add: cycle_timezone_def save_config_def Let_def split: option.splits)

lemma sync_ntp_config: "sync_ntp os st w = (r, st', w', tr) \<Longrightarrow> config st' = config st"
  by (drule sync_ntp_state) auto

lemma button_callback_keeps_keys:
  "config st k \<noteq> None \<Longrightarrow> config (fst (button_callback v os ch (st, w))) k \<noteq> None"
  using cycle_timezone_keeps_keys[of st k v os]
  by (auto simp: button_callback_def split: prod.splits dest: sync_ntp_config)

lemma auto_ntp_sync_config: "config (fst (auto_ntp_sync os (st, w))) = config st"
  by (auto simp: auto_ntp_sync_def split: prod.splits dest: sync_ntp_config)

lemma update_members_keeps_keys: "d k \<noteq> None \<Longrightarrow> update_members d kvs k \<noteq> None"
  by (induction kvs arbitrary: d) auto

lemma update_pairs_keeps_keys: "d k \<noteq> None \<Longrightarrow> fst (update_pairs d items) k \<noteq> None"
proof (induction items arbitrary: d)
  case Nil
  then show ?case by simp
next
  case (Cons item rest)
  show ?case
  proof (cases "\<exists>a x hk. py_iter item = Inr [a, x] \<and> hash_key a = Some hk")
    case True
    then obtain a x hk where p: "py_iter item = Inr [a, x]" "hash_key a = Some hk"
      by blast
    have "(d(hk \<mapsto> x)) k \<noteq> None"
      using Cons.prems by simp
    then have "fst (update_pairs (d(hk \<mapsto> x)) rest) k \<noteq> None"
      by (rule Cons.IH)
    then show ?thesis using p by simp
  next
    case False
    then have "fst (update_pairs d (item # rest)) = d"
      by (auto split: sum.splits list.splits option.splits)
    then show ?thesis using Cons.prems by simp
  qed
qed

lemma dict_update_keeps_keys: "d k \<noteq> None \<Longrightarrow> fst (dict_update d x) k \<noteq> None"
  using update_members_keeps_keys[of d k] update_pairs_keeps_keys[of d k]
  by (cases x) (auto simp: dict_update_def)

lemma load_config_keeps_keys: "default_config v k \<noteq> None \<Longrightarrow> load_config v f k \<noteq> None"
  using dict_update_keeps_keys[of "default_config v" k]
  by (cases f) (auto simp: load_config_def)

lemma reachable_keeps_keys:
  "reachable v os sw \<Longrightarrow> default_config v k \<noteq> None \<Longrightarrow> config (fst sw) k \<noteq> None"
proof (induction rule: reachable.induct)
  case (reach_init cf dev st w)
  then show ?case
    using load_config_keeps_keys[of v k cf]
    by (auto simp: init_def Let_def split: option.splits)
next
  case (reach_button sw channel)
  then show ?case
    using button_callback_keeps_keys[of "fst sw" k v os channel "snd sw"] by simp
next
  case (reach_tick sw)
  then show ?case
    using auto_ntp_sync_config[of os "fst sw" "snd sw"] by simp
next
  case (reach_world st w w')
  then show ?case by simp
qed

subsection \<open>The synchronisation line\<close>

lemma draw_datetime_installer:
  assumes "config st (KStr ''show_seconds'') = Some b"
  shows "draw_datetime Installer os st w =
     [((0, 0), strftime os (timezone st) ''%a, %b %d %Y'' w),
      ((0, 16), strftime os (timezone st) (if truthy b then ''%H:%M:%S'' else ''%H:%M'') w),
      ((0, 32), ''TZ: '' @ last_component (timezone st)),
      ((0, 48), ''NTP: '' @ (if clock os w - last_ntp_sync st < 7200 then ''Synced'' else ''Old''))]"
  using assms by (simp add: draw_datetime_def Let_def)

text \<open>
  C10. In every reachable state of the installer copy, \<open>draw_datetime\<close> draws four
  lines, the last of them at (0, 48): it reads \<open>NTP: Synced\<close> exactly when the
  current time minus \<open>last_ntp_sync\<close> is less than 7200 seconds, and \<open>NTP: Old\<close>
  otherwise; 7200 is twice the automatic synchronisation interval.
\<close>

theorem ntp_staleness_line:
  "reachable Installer os (st, w) \<longrightarrow>
     length (draw_datetime Installer os st w) = 4
     \<and> fst (last (draw_datetime Installer os st w)) = (0, 48)
     \<and> (snd (last (draw_datetime Installer os st w)) = ''NTP: Synced'')
          = (clock os w - last_ntp_sync st < 7200)
     \<and> (snd (last (draw_datetime Installer os st w)) = ''NTP: Old'')
          = (\<not> clock os w - last_ntp_sync st < 7200)
     \<and> (((0, 48), ''NTP: Synced'') \<in> set (draw_datetime Installer os st w))
          = (clock os w - last_ntp_sync st < 7200)
     \<and> (((0, 48), ''NTP: Old'') \<in> set (draw_datetime Installer os st w))
          = (\<not> clock os w - last_ntp_sync st < 7200)
     \<and> 7200 = 2 * ntp_sync_interval"
proof
  assume r: "reachable Installer os (st, w)"
  have "default_config Installer (KStr ''show_seconds'') \<noteq> None"
    by (simp add: default_config_def)
  with reachable_keeps_keys[OF r] obtain b where b: "config st (KStr ''show_seconds'') = Some b"
    by auto
  show "length (draw_datetime Installer os st w) = 4
     \<and> fst (last (draw_datetime Installer os st w)) = (0, 48)
     \<and> (snd (last (draw_datetime Installer os st w)) = ''NTP: Synced'')
          = (clock os w - last_ntp_sync st < 7200)
     \<and> (snd (last (draw_datetime Installer os st w)) = ''NTP: Old'')
          = (\<not> clock os w - last_ntp_sync st < 7200)
     \<and> (((0, 48), ''NTP: Synced'') \<in> set (draw_datetime Installer os st w))
          = (clock os w - last_ntp_sync st < 7200)
     \<and> (((0, 48), ''NTP: Old'') \<in> set (draw_datetime Installer os st w))
          = (\<not> clock os w - last_ntp_sync st < 7200)
     \<and> 7200 = 2 * ntp_sync_interval"
    by (simp add: draw_datetime_installer[OF b] ntp_sync_interval_def)
qed

theorem ntp_staleness_line_witness:
  "reachable Installer example_os (example_monitor Installer, 7199)
   \<and> reachable Installer example_os (example_monitor Installer, 7200)
   \<and> last (draw_datetime Installer example_os (example_monitor Installer) 7199)
        = ((0, 48), ''NTP: Synced'')
   \<and> last (draw_datetime Installer example_os (example_monitor Installer) 7200)
        = ((0, 48), ''NTP: Old'')"
proof -
  have r1: "reachable Installer example_os (example_monitor Installer, 7199)"
    by (rule reach_init [OF example_init])
  have r2: "reachable Installer example_os (example_monitor Installer, 7200)"
    by (rule reach_init [OF example_init])
  have c: "clock example_os 7199 - last_ntp_sync (example_monitor Installer) < 7200"
    "\<not> clock example_os 7200 - last_ntp_sync (example_monitor Installer) < 7200"
    by (simp_all add: example_os_def example_monitor_def)
  from ntp_staleness_line [where os = example_os and st = "example_monitor Installer" and w = 7199]
    r1 c(1)
  have "last (draw_datetime Installer example_os (example_monitor Installer) 7199)
        = ((0, 48), ''NTP: Synced'')"
    by (simp add: prod_eq_iff)
  moreover
  from ntp_staleness_line [where os = example_os and st = "example_monitor Installer" and w = 7200]
    r2 c(2)
  have "last (draw_datetime Installer example_os (example_monitor Installer) 7200)
        = ((0, 48), ''NTP: Old'')"
    by (simp add: prod_eq_iff)
  ultimately show ?thesis using r1 r2 by simp
qed

subsection \<open>Fahrenheit\<close>

text \<open>
  C9. When the configured unit is F and there is a reading \<open>t\<close>, the installer copy
  draws the title, the Fahrenheit value \<open>t * 9 / 5 + 32\<close>, the Celsius value \<open>t\<close>
  and the status; a reading of 0 shows the Fahrenheit value 32 and a reading of 100
  the value 212. With any other unit only the Celsius value is drawn.
\<close>

theorem fahrenheit_conversion:
  "(get_temperature os w = Some t \<and> config st (KStr ''temperature_unit'') = Some (JString ''F'') \<longrightarrow>
      draw_temperature Installer os st w =
        [((0, 0), ''Temperature''),
         ((0, 16), ''CPU: '' @ format_1f os (t * 9 / 5 + 32) @ degree @ ''F''),
         ((0, 28), ''     '' @ format_1f os t @ degree @ ''C''),
         ((0, 40), ''Status: '' @ status t)])
   \<and> (get_temperature os w = Some 0 \<and> config st (KStr ''temperature_unit'') = Some (JString ''F'') \<longrightarrow>
      draw_temperature Installer os st w ! 1
        = ((0, 16), ''CPU: '' @ format_1f os 32 @ degree @ ''F''))
   \<and> (get_temperature os w = Some 100 \<and> config st (KStr ''temperature_unit'') = Some (JString ''F'') \<longrightarrow>
      draw_temperature Installer os st w ! 1
        = ((0, 16), ''CPU: '' @ format_1f os 212 @ degree @ ''F''))
   \<and> (get_temperature os w = Some t \<and> config st (KStr ''temperature_unit'') = Some u
        \<and> u \<noteq> JString ''F'' \<longrightarrow>
      draw_temperature Installer os st w =
        [((0, 0), ''Temperature''),
         ((0, 16), ''CPU: '' @ format_1f os t @ degree @ ''C''),
         ((0, 40), ''Status: '' @ status t)])"
  by (simp add: draw_temperature_def Let_def)

theorem fahrenheit_conversion_witness:
  "get_temperature (warm_os 0) 0 = Some 0
   \<and> get_temperature (warm_os 100000) 0 = Some 100
   \<and> config fahrenheit_monitor (KStr ''temperature_unit'') = Some (JString ''F'')
   \<and> draw_temperature Installer (warm_os 0) fahrenheit_monitor 0 =
        [((0, 0), ''Temperature''),
         ((0, 16), ''CPU: 32.0'' @ degree @ ''F''),
         ((0, 28), ''     0.0'' @ degree @ ''C''),
         ((0, 40), ''Status: COOL'')]
   \<and> draw_temperature Installer (warm_os 100000) fahrenheit_monitor 0 ! 1
        = ((0, 16), ''CPU: 212.0'' @ degree @ ''F'')"
proof -
  have a: "get_temperature (warm_os 0) 0 = Some 0"
    by (simp add: warm_temperature)
  have b: "get_temperature (warm_os 100000) 0 = Some 100"
    by (simp add: warm_temperature)
  have c: "config fahrenheit_monitor (KStr ''temperature_unit'') = Some (JString ''F'')"
    by (simp add: fahrenheit_monitor_def)
  have f: "format_1f (warm_os m) = one_decimal" for m
    by (simp add: warm_os_def example_os_def)
  have z: "one_decimal 0 = ''0.0''"
    by (simp add: one_decimal_def str_int_def)
  from fahrenheit_conversion [where os = "warm_os 0" and w = 0 and t = 0
      and st = fahrenheit_monitor] a c
  have "draw_temperature Installer (warm_os 0) fahrenheit_monitor 0 =
        [((0, 0), ''Temperature''),
         ((0, 16), ''CPU: 32.0'' @ degree @ ''F''),
         ((0, 28), ''     0.0'' @ degree @ ''C''),
         ((0, 40), ''Status: COOL'')]"
    by (simp add: f od32 z status_def)
  moreover
  from fahrenheit_conversion [where os = "warm_os 100000" and w = 0 and t = 100
      and st = fahrenheit_monitor] b c
  have "draw_temperature Installer (warm_os 100000) fahrenheit_monitor 0 ! 1
        = ((0, 16), ''CPU: 212.0'' @ degree @ ''F'')"
    by (simp add: f od212)
  ultimately show ?thesis using a b c by simp
qed

subsection \<open>Placeholders and faults\<close>
















end
